theory Spec2Isabelle
  imports Main "HOL-Library.Word" "HOL-Library.Stream"
begin

unbundle bit_operations_syntax

section \<open>Data model\<close>

text \<open>
  The library \<^verbatim>\<open>keygen.ts\<close> works on two kinds of values: JavaScript strings (the
  base64 text of a key) and Node.js buffers (the raw bytes of a key). A buffer is a list
  of 8-bit words. A string is a list of characters whose \<open>length\<close> is the number of its
  code units, as \<^verbatim>\<open>publicKey.length\<close> is; the characters are the 8-bit ones of
  Isabelle's \<open>char\<close>, which cover the whole base64 alphabet.
\<close>

type_synonym byte = "8 word"
type_synonym buffer = "byte list"

text \<open>The interface \<^verbatim>\<open>WireGuardKeyPair\<close>.\<close>

record WireGuardKeyPair =
  privateKey :: string
  publicKey :: string

text \<open>
  Exceptions are values. \<open>InvalidKeyLength\<close> is the only exception the source throws
  itself: \<^verbatim>\<open>new Error('Private key must be 32 bytes long')\<close>. \<open>InvalidEncoding\<close> is
  the error class that the specification names for input that is not base64; no
  statement of the source raises it, and it is here so that statements about it can be
  written down.
\<close>

datatype error = InvalidKeyLength | InvalidEncoding

section \<open>The base64 codec of Node.js buffers\<close>

text \<open>
  \<^verbatim>\<open>buf.toString('base64')\<close> and \<^verbatim>\<open>Buffer.from(str, 'base64')\<close> belong to the Node.js
  runtime, not to the repository. They are modelled after the runtime's documented
  behaviour and its reference codec:
  \<^item> the encoder writes four characters of the standard alphabet for every three bytes
    and pads the last group with \<open>=\<close>;
  \<^item> the decoder never throws. It accepts the standard and the URL-safe alphabet
    (\<open>-\<close> for \<open>+\<close>, \<open>_\<close> for \<open>/\<close>), skips every character that belongs to neither
    (white space included), stops at the first \<open>=\<close>, and turns the 6-bit values it has
    collected into bytes, dropping an incomplete last byte.
\<close>

definition base64_table :: string where
  "base64_table =
     ''ABCDEFGHIJKLMNOPQRSTUVWXYZabcdefghijklmnopqrstuvwxyz0123456789+/''"

definition b64char :: "byte \<Rightarrow> char" where
  "b64char v = base64_table ! unat v"

text \<open>The encoder: \<open>a >> 2\<close>, \<open>((a & 3) << 4) | (b >> 4)\<close>, \<open>((b & 15) << 2) | (c >> 6)\<close>,
  \<open>c & 63\<close> for a full group, and the two padded endings.\<close>

fun base64_encode :: "buffer \<Rightarrow> string" where
  "base64_encode (a # b # c # rest) =
     b64char (drop_bit 2 a) #
     b64char (push_bit 4 (a AND 3) OR drop_bit 4 b) #
     b64char (push_bit 2 (b AND 15) OR drop_bit 6 c) #
     b64char (c AND 63) # base64_encode rest"
| "base64_encode [a, b] =
     [b64char (drop_bit 2 a),
      b64char (push_bit 4 (a AND 3) OR drop_bit 4 b),
      b64char (push_bit 2 (b AND 15)),
      CHR ''='']"
| "base64_encode [a] =
     [b64char (drop_bit 2 a), b64char (push_bit 4 (a AND 3)), CHR ''='', CHR ''='']"
| "base64_encode [] = []"

text \<open>The 6-bit values behind the characters that the encoder writes before the padding;
  the proofs about the codec go through them.\<close>

fun sextets :: "buffer \<Rightarrow> byte list" where
  "sextets (a # b # c # rest) =
     drop_bit 2 a #
     (push_bit 4 (a AND 3) OR drop_bit 4 b) #
     (push_bit 2 (b AND 15) OR drop_bit 6 c) #
     (c AND 63) # sextets rest"
| "sextets [a, b] =
     [drop_bit 2 a, push_bit 4 (a AND 3) OR drop_bit 4 b, push_bit 2 (b AND 15)]"
| "sextets [a] = [drop_bit 2 a, push_bit 4 (a AND 3)]"
| "sextets [] = []"

text \<open>The decoder's table: the value of a character, or \<open>None\<close> for a character that
  the decoder skips.\<close>

definition unbase64 :: "char \<Rightarrow> byte option" where
  "unbase64 c =
     (let n = (of_char c :: nat) in
      if 65 \<le> n \<and> n \<le> 90 then Some (of_nat (n - 65))
      else if 97 \<le> n \<and> n \<le> 122 then Some (of_nat (n - 71))
      else if 48 \<le> n \<and> n \<le> 57 then Some (of_nat (n + 4))
      else if c = CHR ''+'' \<or> c = CHR ''-'' then Some 62
      else if c = CHR ''/'' \<or> c = CHR ''_'' then Some 63
      else None)"

text \<open>Four 6-bit values make three bytes: \<open>((hi & 0x3F) << 2) | ((lo & 0x30) >> 4)\<close>,
  \<open>((hi & 0x0F) << 4) | ((lo & 0x3C) >> 2)\<close>, \<open>((hi & 0x03) << 6) | (lo & 0x3F)\<close>. Three
  values at the end make two bytes, two make one, a single one makes none.\<close>

fun decode_sextets :: "byte list \<Rightarrow> buffer" where
  "decode_sextets (s0 # s1 # s2 # s3 # rest) =
     (push_bit 2 (s0 AND 63) OR drop_bit 4 (s1 AND 48)) #
     (push_bit 4 (s1 AND 15) OR drop_bit 2 (s2 AND 60)) #
     (push_bit 6 (s2 AND 3) OR (s3 AND 63)) # decode_sextets rest"
| "decode_sextets [s0, s1, s2] =
     [push_bit 2 (s0 AND 63) OR drop_bit 4 (s1 AND 48),
      push_bit 4 (s1 AND 15) OR drop_bit 2 (s2 AND 60)]"
| "decode_sextets [s0, s1] = [push_bit 2 (s0 AND 63) OR drop_bit 4 (s1 AND 48)]"
| "decode_sextets [s0] = []"
| "decode_sextets [] = []"

definition Buffer_from_base64 :: "string \<Rightarrow> buffer" where
  "Buffer_from_base64 str =
     decode_sextets (List.map_filter unbase64 (takeWhile (\<lambda>c. c \<noteq> CHR ''='') str))"

section \<open>The X25519 primitive\<close>

text \<open>
  Modelled from the spec: \<^verbatim>\<open>x25519.getPublicKey\<close> of the package \<^verbatim>\<open>@noble/curves\<close> is
  not part of the repository. The specification describes it as the scalar
  multiplication of the given scalar against the fixed base point of Curve25519, with
  32 bytes in and 32 bytes out. That is the function X25519 of RFC 7748 at the base
  point \<open>u = 9\<close>: the scalar is clamped and read as a little-endian number, the
  Montgomery ladder runs over its bits 254 down to 0 in the field of integers modulo
  \<open>2^255 - 19\<close>, and the result \<open>x\<^sub>2 \<cdot> z\<^sub>2^(p - 2)\<close> is written as 32 little-endian bytes.
  The source calls it only behind its own length check, on exactly 32 bytes.
\<close>

definition p25519 :: int where
  "p25519 = 2 ^ 255 - 19"

definition a24 :: int where
  "a24 = 121665"

definition fadd :: "int \<Rightarrow> int \<Rightarrow> int" where
  "fadd a b = (a + b) mod p25519"

definition fsub :: "int \<Rightarrow> int \<Rightarrow> int" where
  "fsub a b = (a - b) mod p25519"

definition fmul :: "int \<Rightarrow> int \<Rightarrow> int" where
  "fmul a b = (a * b) mod p25519"

definition finv :: "int \<Rightarrow> int" where
  "finv z = z ^ nat (p25519 - 2) mod p25519"

definition decodeLittleEndian :: "buffer \<Rightarrow> int" where
  "decodeLittleEndian bs = foldr (\<lambda>b n. uint b + 256 * n) bs 0"

definition encodeLittleEndian :: "nat \<Rightarrow> int \<Rightarrow> buffer" where
  "encodeLittleEndian len n = map (\<lambda>i. word_of_int (drop_bit (8 * i) n)) [0..<len]"

definition adjustScalarBytes :: "buffer \<Rightarrow> buffer" where
  "adjustScalarBytes k =
     (let k1 = k[0 := (k ! 0) AND 248];
          k2 = k1[31 := (k1 ! 31) AND 127]
      in k2[31 := (k2 ! 31) OR 64])"

record ladder =
  x2 :: int
  z2 :: int
  x3 :: int
  z3 :: int
  swap :: bool

definition cswap :: "bool \<Rightarrow> ladder \<Rightarrow> ladder" where
  "cswap s l = (if s then l\<lparr>x2 := x3 l, z2 := z3 l, x3 := x2 l, z3 := z2 l\<rparr> else l)"

definition ladder_step :: "int \<Rightarrow> bool \<Rightarrow> ladder \<Rightarrow> ladder" where
  "ladder_step x1 kt l0 =
     (let l = cswap (swap l0 \<noteq> kt) l0;
          A = fadd (x2 l) (z2 l);
          AA = fmul A A;
          B = fsub (x2 l) (z2 l);
          BB = fmul B B;
          E = fsub AA BB;
          C = fadd (x3 l) (z3 l);
          D = fsub (x3 l) (z3 l);
          DA = fmul D A;
          CB = fmul C B;
          S = fadd DA CB;
          T = fsub DA CB
      in \<lparr>x2 = fmul AA BB,
          z2 = fmul E (fadd AA (fmul a24 E)),
          x3 = fmul S S,
          z3 = fmul x1 (fmul T T),
          swap = kt\<rparr>)"

definition scalar_bits :: "int \<Rightarrow> bool list" where
  "scalar_bits k = map (bit k) (rev [0..<255])"

definition montgomery_ladder :: "int \<Rightarrow> int \<Rightarrow> ladder" where
  "montgomery_ladder k u =
     fold (ladder_step u) (scalar_bits k) \<lparr>x2 = 1, z2 = 0, x3 = u, z3 = 1, swap = False\<rparr>"

definition scalarMult :: "int \<Rightarrow> int \<Rightarrow> int" where
  "scalarMult k u =
     (let l0 = montgomery_ladder k u; l = cswap (swap l0) l0
      in fmul (x2 l) (finv (z2 l)))"

text \<open>Modelled from the spec: \<^verbatim>\<open>x25519.getPublicKey\<close>, the external primitive that maps
  a private key of 32 bytes to its public key of 32 bytes.\<close>

definition x25519_getPublicKey :: "buffer \<Rightarrow> buffer" where
  "x25519_getPublicKey priv =
     encodeLittleEndian 32 (scalarMult (decodeLittleEndian (adjustScalarBytes priv)) 9)"

section \<open>The random source\<close>

text \<open>
  \<^verbatim>\<open>randomBytes(n)\<close> of Node's \<^verbatim>\<open>crypto\<close> module draws \<open>n\<close> bytes from the operating
  system. The source of randomness is a stream of bytes that is threaded through the
  functions that draw from it: a draw returns the next \<open>n\<close> bytes and the rest of the
  stream.
\<close>

type_synonym entropy = "byte stream"

definition randomBytes :: "nat \<Rightarrow> entropy \<Rightarrow> buffer \<times> entropy" where
  "randomBytes n rng = (stake n rng, sdrop n rng)"

section \<open>The functions of keygen.ts\<close>

definition generatePrivateKey :: "entropy \<Rightarrow> string \<times> entropy" where
  "generatePrivateKey rng =
     (let (privateKeyBytes, rng') = randomBytes 32 rng
      in (base64_encode privateKeyBytes, rng'))"

text \<open>
  The body of \<^verbatim>\<open>derivePublicKey\<close> calls the decoder, the curve primitive and the
  encoder, and never \<^verbatim>\<open>randomBytes\<close>. So the random source is not among the arguments
  of its model, which is a function of the string alone; that two calls on one input
  agree is a property of this way of modelling it, and no theorem below states it.
\<close>

definition derivePublicKey :: "string \<Rightarrow> error + string" where
  "derivePublicKey privateKeyStr =
     (let privateKeyBytes = Buffer_from_base64 privateKeyStr
      in if length privateKeyBytes \<noteq> 32 then Inl InvalidKeyLength
         else let publicKeyBytes = x25519_getPublicKey privateKeyBytes
              in Inr (base64_encode publicKeyBytes))"

text \<open>
  \<^verbatim>\<open>validatePublicKey\<close> decodes inside \<^verbatim>\<open>try { ... } catch { return false; }\<close>. To keep
  the handler in the model, the body is written over any decoder that may fail (the
  parameter \<^verbatim>\<open>publicKey\<close> is called \<open>key\<close>, the field of the record has the name);
  \<open>validatePublicKey\<close> itself is the body over the decoder of Node.js, which never does.
\<close>

definition validatePublicKey_with ::
  "(string \<Rightarrow> error + buffer) \<Rightarrow> string \<Rightarrow> error + bool" where
  "validatePublicKey_with decode key =
     (if length key \<noteq> 44 then Inr False
      else (case decode key of
              Inr decoded \<Rightarrow> Inr (length decoded = 32)
            | Inl e \<Rightarrow> Inr False))"

definition validatePublicKey :: "string \<Rightarrow> error + bool" where
  "validatePublicKey key =
     validatePublicKey_with (\<lambda>str. Inr (Buffer_from_base64 str)) key"

definition generateWireguardKeyPair :: "entropy \<Rightarrow> error + (WireGuardKeyPair \<times> entropy)" where
  "generateWireguardKeyPair rng =
     (let (priv, rng') = generatePrivateKey rng
      in case derivePublicKey priv of
           Inl e \<Rightarrow> Inl e
         | Inr pub \<Rightarrow> Inr (\<lparr>privateKey = priv, publicKey = pub\<rparr>, rng'))"

section \<open>Well-formed base64 text, as the specification words it\<close>

text \<open>
  The specification's encoding rule: the standard alphabet \<open>A-Z\<close>, \<open>a-z\<close>, \<open>0-9\<close>, \<open>+\<close>,
  \<open>/\<close>, with \<open>=\<close> padding. \<open>valid_base64\<close> follows these words (RFC 4648, section 4):
  groups of four characters of the alphabet, where the last group may end in one or two
  \<open>=\<close>.
\<close>

definition is_base64_char :: "char \<Rightarrow> bool" where
  "is_base64_char c = (c \<in> set base64_table)"

fun valid_base64 :: "string \<Rightarrow> bool" where
  "valid_base64 [] = True"
| "valid_base64 [a, b, c, d] =
     (is_base64_char a \<and> is_base64_char b \<and>
      (if c = CHR ''='' then d = CHR ''=''
       else is_base64_char c \<and> (d = CHR ''='' \<or> is_base64_char d)))"
| "valid_base64 (a # b # c # d # rest) =
     (is_base64_char a \<and> is_base64_char b \<and> is_base64_char c \<and> is_base64_char d \<and>
      valid_base64 rest)"
| "valid_base64 _ = False"

section \<open>Evaluating the field arithmetic\<close>

text \<open>
  The functions of this section are not part of the model. They compute what the field
  operations above specify, in a way that a proof can run on numbers of 255 bits:
  \<open>reduce25519\<close> reduces a product modulo \<open>2^255 - 19\<close> by folding the bits above bit
  255 back with the factor 19 (as \<open>2^255 = 19\<close> in the field), and \<open>pow_bits\<close> is
  exponentiation by squaring over the bits of the exponent, the most significant first.
  Both are proved equal to the operations of the model below.
\<close>

definition two_255 :: int where
  "two_255 = 2 ^ 255"

definition fold19 :: "int \<Rightarrow> int" where
  "fold19 x = (let h = drop_bit 255 x in x - two_255 * h + 19 * h)"

definition reduce25519 :: "int \<Rightarrow> int" where
  "reduce25519 x = (let z = fold19 (fold19 x) in if p25519 \<le> z then z - p25519 else z)"

fun pow_bits :: "int \<Rightarrow> bool list \<Rightarrow> int \<Rightarrow> int" where
  "pow_bits z [] acc = acc"
| "pow_bits z (b # bs) acc =
     pow_bits z bs (if b then fmul (fmul acc acc) z else fmul acc acc)"

fun bits_value :: "bool list \<Rightarrow> nat" where
  "bits_value [] = 0"
| "bits_value (b # bs) = (if b then 2 ^ length bs else 0) + bits_value bs"

text \<open>The bits of the exponent \<open>p - 2 = 2^255 - 21\<close>.\<close>

definition exponent_bits :: "bool list" where
  "exponent_bits = replicate 250 True @ [False, True, False, True, True]"

section \<open>The codec: encoding and decoding are inverse\<close>

lemma unbase64_table: "\<forall>n \<in> set [0..<64]. unbase64 (base64_table ! n) = Some (of_nat n)"
  unfolding base64_table_def unbase64_def by (simp add: upt_rec)

lemma unbase64_b64char: "v < 64 \<Longrightarrow> unbase64 (b64char v) = Some v"
proof -
  assume "v < 64"
  then have "unat v < 64" by (simp add: word_less_nat_alt)
  then have "unat v \<in> set [0..<64]" by simp
  with unbase64_table have "unbase64 (base64_table ! unat v) = Some (of_nat (unat v))" by blast
  then show ?thesis by (simp add: b64char_def)
qed

lemma unbase64_pad: "unbase64 CHR ''='' = None"
  by (simp add: unbase64_def)

lemma b64char_not_pad: "v < 64 \<Longrightarrow> b64char v \<noteq> CHR ''=''"
  using unbase64_b64char [of v] unbase64_pad by auto

lemma b64char_in_table: "v < 64 \<Longrightarrow> is_base64_char (b64char v)"
proof -
  assume "v < 64"
  then have "unat v < length base64_table" by (simp add: word_less_nat_alt base64_table_def)
  then show ?thesis unfolding is_base64_char_def b64char_def by (rule nth_mem)
qed


lemma masks: "(63::byte) = mask 6" "(48::byte) = push_bit 4 (mask 2)" "(3::byte) = mask 2"
  "(15::byte) = mask 4" "(60::byte) = push_bit 2 (mask 4)"
  by (simp_all add: mask_eq_exp_minus_1)

lemma byte_eqI:
  fixes a b :: byte
  assumes "\<And>n. n \<in> {0, 1, 2, 3, 4, 5, 6, 7} \<Longrightarrow> bit a n = bit b n"
  shows "a = b"
proof (rule bit_word_eqI)
  fix n :: nat
  assume "n < LENGTH(8)"
  then have "n \<in> {0, 1, 2, 3, 4, 5, 6, 7}" by auto
  then show "bit a n = bit b n" by (rule assms)
qed

lemma dec0: "push_bit 2 (drop_bit 2 a AND 63) OR drop_bit 4 ((push_bit 4 (a AND 3) OR drop_bit 4 b) AND 48) = (a::byte)"
  unfolding masks
  by (rule byte_eqI) (auto simp: bit_simps numeral_2_eq_2[symmetric] numeral_3_eq_3[symmetric])

lemma dec1: "push_bit 4 ((push_bit 4 (a AND 3) OR drop_bit 4 b) AND 15) OR drop_bit 2 ((push_bit 2 (b AND 15) OR drop_bit 6 c) AND 60) = (b::byte)"
  unfolding masks
  by (rule byte_eqI) (auto simp: bit_simps numeral_2_eq_2[symmetric] numeral_3_eq_3[symmetric])

lemma dec2: "push_bit 6 ((push_bit 2 (b AND 15) OR drop_bit 6 c) AND 3) OR (c AND 63) = (c::byte)"
  unfolding masks
  by (rule byte_eqI) (auto simp: bit_simps numeral_2_eq_2[symmetric] numeral_3_eq_3[symmetric])

lemma dec1': "push_bit 4 ((push_bit 4 (a AND 3) OR drop_bit 4 b) AND 15) OR drop_bit 2 (push_bit 2 (b AND 15) AND 60) = (b::byte)"
  unfolding masks
  by (rule byte_eqI) (auto simp: bit_simps numeral_2_eq_2[symmetric] numeral_3_eq_3[symmetric])

lemma dec0': "push_bit 2 (drop_bit 2 a AND 63) OR drop_bit 4 (push_bit 4 (a AND 3) AND 48) = (a::byte)"
  unfolding masks
  by (rule byte_eqI) (auto simp: bit_simps numeral_2_eq_2[symmetric] numeral_3_eq_3[symmetric])

lemma lt64I: "a AND mask 6 = a \<Longrightarrow> (a::byte) < 64"
proof -
  assume "a AND mask 6 = a"
  then have "uint a < 2 ^ 6" by (simp add: mask_eq_iff)
  then show ?thesis by (simp add: word_less_alt)
qed

lemma sextet_bounds:
  fixes a b c :: byte
  shows "drop_bit 2 a < 64"
    and "push_bit 4 (a AND 3) OR drop_bit 4 b < 64"
    and "push_bit 2 (b AND 15) OR drop_bit 6 c < 64"
    and "c AND 63 < 64"
    and "push_bit 2 (b AND 15) < 64"
    and "push_bit 4 (a AND 3) < 64"
  unfolding masks
  by (rule lt64I, rule byte_eqI,
      auto simp: bit_simps numeral_2_eq_2[symmetric] numeral_3_eq_3[symmetric]
           dest: bit_imp_le_length)+


lemmas bit_distrib = push_bit_and push_bit_or drop_bit_and drop_bit_or

lemma sextets_lt: "v \<in> set (sextets bs) \<Longrightarrow> v < 64"
  by (induction bs arbitrary: v rule: sextets.induct)
     (auto simp: sextet_bounds simp del: bit_distrib)

lemma takeWhile_encode:
  "takeWhile (\<lambda>c. c \<noteq> CHR ''='') (base64_encode bs) = map b64char (sextets bs)"
  by (induction bs rule: base64_encode.induct)
     (simp_all add: b64char_not_pad sextet_bounds del: bit_distrib)

lemma map_filter_b64char:
  "(\<And>v. v \<in> set vs \<Longrightarrow> v < 64) \<Longrightarrow> List.map_filter unbase64 (map b64char vs) = vs"
  by (induction vs) (simp_all add: unbase64_b64char)

lemma decode_sextets_sextets: "decode_sextets (sextets bs) = bs"
  by (induction bs rule: sextets.induct)
     (simp_all add: dec0 dec1 dec2 dec0' dec1' del: bit_distrib)

lemma Buffer_from_encode: "Buffer_from_base64 (base64_encode bs) = bs"
  by (simp add: Buffer_from_base64_def takeWhile_encode map_filter_b64char sextets_lt
      decode_sextets_sextets)

lemma length_base64_encode: "length (base64_encode bs) = 4 * ((length bs + 2) div 3)"
proof (induction bs rule: base64_encode.induct)
  case (1 a b c rest)
  have "(length rest + 5) div 3 = Suc ((length rest + 2) div 3)" by arith
  with 1 show ?case by (simp add: add.commute)
qed simp_all

lemma length_sextets: "length (sextets bs) = (4 * length bs + 2) div 3"
proof (induction bs rule: sextets.induct)
  case (1 a b c rest)
  have "(4 * length rest + 14) div 3 = 4 + (4 * length rest + 2) div 3" by arith
  with 1 show ?case by (simp add: add.commute)
qed simp_all


lemma replicate_pad: "replicate 2 c = [c, c]" "replicate 1 c = [c]"
  by (simp_all add: numeral_2_eq_2)

lemma encode_sextets_padding:
  "base64_encode bs = map b64char (sextets bs) @ replicate ((3 - length bs mod 3) mod 3) CHR ''=''"
  by (induction bs rule: base64_encode.induct) (simp_all add: replicate_pad del: bit_distrib)

lemma pad_not_base64_char: "\<not> is_base64_char CHR ''=''"
  by (simp add: is_base64_char_def base64_table_def)

lemma valid_base64_group:
  assumes "is_base64_char a" "is_base64_char b" "is_base64_char c" "is_base64_char d"
    and "valid_base64 r"
  shows "valid_base64 (a # b # c # d # r)"
proof (cases r)
  case Nil
  from assms(3) pad_not_base64_char have "c \<noteq> CHR ''=''" by auto
  with assms Nil show ?thesis by simp
next
  case (Cons x xs)
  with assms show ?thesis by simp
qed

lemma valid_base64_encode: "valid_base64 (base64_encode bs)"
proof (induction bs rule: base64_encode.induct)
  case (1 a b c rest)
  then show ?case
    by (simp only: base64_encode.simps)
       (intro valid_base64_group b64char_in_table sextet_bounds)
next
  case (2 a b)
  then show ?case
    by (simp add: b64char_in_table sextet_bounds b64char_not_pad del: bit_distrib)
next
  case (3 a)
  then show ?case
    by (simp add: b64char_in_table sextet_bounds b64char_not_pad del: bit_distrib)
next
  case 4
  then show ?case by simp
qed

lemma Buffer_from_takeWhile:
  "Buffer_from_base64 (takeWhile (\<lambda>c. c \<noteq> CHR ''='') str) = Buffer_from_base64 str"
  by (simp add: Buffer_from_base64_def)

lemma Buffer_from_sextets: "Buffer_from_base64 (map b64char (sextets bs)) = bs"
  using Buffer_from_takeWhile [of "base64_encode bs"]
  by (simp add: takeWhile_encode Buffer_from_encode)

lemma encode_32:
  assumes "length bs = 32"
  shows "base64_encode bs = map b64char (sextets bs) @ ''=''"
    and "length (sextets bs) = 43"
    and "length (base64_encode bs) = 44"
  using assms
  by (simp_all add: encode_sextets_padding [of bs] length_sextets length_base64_encode
      replicate_pad)

section \<open>Facts about the four functions\<close>

lemma length_x25519_getPublicKey: "length (x25519_getPublicKey priv) = 32"
  by (simp add: x25519_getPublicKey_def encodeLittleEndian_def)

lemma derivePublicKey_32:
  "length (Buffer_from_base64 s) = 32 \<Longrightarrow>
   derivePublicKey s = Inr (base64_encode (x25519_getPublicKey (Buffer_from_base64 s)))"
  by (simp add: derivePublicKey_def)

lemma validatePublicKey_eq:
  "validatePublicKey s = Inr (length s = 44 \<and> length (Buffer_from_base64 s) = 32)"
  by (simp add: validatePublicKey_def validatePublicKey_with_def)

lemma validatePublicKey_encode:
  "length bs = 32 \<Longrightarrow> validatePublicKey (base64_encode bs) = Inr True"
  by (simp add: validatePublicKey_eq Buffer_from_encode length_base64_encode)

text \<open>Well-formed base64 text that decodes to 32 bytes has 44 characters, and is
  accepted.\<close>

lemma base64_char_value:
  assumes "is_base64_char c"
  shows "c \<noteq> CHR ''=''" and "unbase64 c \<noteq> None"
proof -
  from assms obtain n where n: "n < length base64_table" "c = base64_table ! n"
    unfolding is_base64_char_def by (auto simp: in_set_conv_nth)
  then have "n \<in> set [0..<64]"
    by (simp add: base64_table_def)
  with unbase64_table n(2) have "unbase64 c = Some (of_nat n)"
    by blast
  then show "unbase64 c \<noteq> None" and "c \<noteq> CHR ''=''"
    using unbase64_pad by auto
qed

lemma Buffer_from_group:
  assumes "is_base64_char a" "is_base64_char b" "is_base64_char c" "is_base64_char d"
  shows "length (Buffer_from_base64 (a # b # c # d # rest))
           = 3 + length (Buffer_from_base64 rest)"
proof -
  from assms obtain va vb vc vd where v: "unbase64 a = Some va" "unbase64 b = Some vb"
      "unbase64 c = Some vc" "unbase64 d = Some vd"
    by (auto dest!: base64_char_value(2))
  from assms have "a \<noteq> CHR ''=''" "b \<noteq> CHR ''=''" "c \<noteq> CHR ''=''" "d \<noteq> CHR ''=''"
    by (auto dest: base64_char_value(1))
  with v show ?thesis
    by (simp add: Buffer_from_base64_def)
qed

lemma Buffer_from_last_group:
  assumes "is_base64_char a" "is_base64_char b"
  shows "length (Buffer_from_base64 [a, b, CHR ''='', d]) = 1"
    and "is_base64_char c \<Longrightarrow> length (Buffer_from_base64 [a, b, c, CHR ''='']) = 2"
proof -
  from assms obtain va vb where v: "unbase64 a = Some va" "unbase64 b = Some vb"
    by (auto dest!: base64_char_value(2))
  from assms have ne: "a \<noteq> CHR ''=''" "b \<noteq> CHR ''=''"
    by (auto dest: base64_char_value(1))
  with v show "length (Buffer_from_base64 [a, b, CHR ''='', d]) = 1"
    by (simp add: Buffer_from_base64_def)
  assume c: "is_base64_char c"
  then obtain vc where "unbase64 c = Some vc"
    by (auto dest!: base64_char_value(2))
  moreover from c have "c \<noteq> CHR ''=''"
    by (rule base64_char_value(1))
  ultimately show "length (Buffer_from_base64 [a, b, c, CHR ''='']) = 2"
    using v ne by (simp add: Buffer_from_base64_def)
qed

lemma valid_base64_decoded_length:
  "valid_base64 s \<Longrightarrow>
     length s mod 4 = 0
     \<and> 4 * length (Buffer_from_base64 s) \<le> 3 * length s
     \<and> 3 * length s \<le> 4 * length (Buffer_from_base64 s) + 8"
proof (induction s rule: valid_base64.induct)
  case 1
  then show ?case
    by (simp add: Buffer_from_base64_def)
next
  case (2 a b c d)
  then have ab: "is_base64_char a" "is_base64_char b"
    by simp_all
  show ?case
  proof (cases "c = CHR ''=''")
    case True
    with ab show ?thesis
      by (simp add: Buffer_from_last_group(1))
  next
    case False
    with 2 have c: "is_base64_char c" and d: "d = CHR ''='' \<or> is_base64_char d"
      by simp_all
    from d show ?thesis
    proof
      assume "d = CHR ''=''"
      with ab c show ?thesis
        by (simp add: Buffer_from_last_group(2))
    next
      assume "is_base64_char d"
      with ab c have "length (Buffer_from_base64 [a, b, c, d]) = 3 + length (Buffer_from_base64 [])"
        by (rule Buffer_from_group)
      then show ?thesis
        by (simp add: Buffer_from_base64_def [of "[]"])
    qed
  qed
next
  case (3 a b c d v va)
  then have chars: "is_base64_char a" "is_base64_char b" "is_base64_char c" "is_base64_char d"
    and rest: "valid_base64 (v # va)"
    by simp_all
  from chars have "length (Buffer_from_base64 (a # b # c # d # v # va))
      = 3 + length (Buffer_from_base64 (v # va))"
    by (rule Buffer_from_group)
  moreover have "length (a # b # c # d # v # va) = 4 + length (v # va)"
    by simp
  ultimately show ?case
    using "3.IH" [OF rest] by presburger
qed simp_all

lemma valid_base64_accepted:
  assumes "valid_base64 s" "length (Buffer_from_base64 s) = 32"
  shows "validatePublicKey s = Inr True"
proof -
  from valid_base64_decoded_length [OF assms(1)] assms(2)
  have "length s mod 4 = 0" "128 \<le> 3 * length s" "3 * length s \<le> 136"
    by simp_all
  then have "length s = 44"
    by presburger
  with assms(2) show ?thesis
    by (simp add: validatePublicKey_eq)
qed

section \<open>The claims\<close>

text \<open>
  C1. The claim: \<open>validatePublicKey s\<close> is true if and only if \<open>s\<close> is valid standard
  base64 that decodes to exactly 32 bytes. From right to left it holds
  (\<open>valid_base64_accepted\<close>). From left to right the code does not keep it: its comment
  says \<^verbatim>\<open>Must be valid base64\<close> and it wraps the decoding in \<^verbatim>\<open>try/catch\<close>, but the
  decoder of Node.js never throws, it skips what is not base64. The two strings below
  have 44 characters, are not valid standard base64 (the first ends in \<open>!\<close>, the second
  uses \<open>_\<close> of the URL-safe alphabet and ends in a blank), and are accepted.
\<close>

theorem validatePublicKey_accepts_invalid_base64:
  "validatePublicKey ''Y3AdHf4MAZi3xgCFxiDfyPBNbBQKuTqTCoDI/XHrnQg!'' = Inr True
   \<and> \<not> valid_base64 ''Y3AdHf4MAZi3xgCFxiDfyPBNbBQKuTqTCoDI/XHrnQg!''
   \<and> validatePublicKey ''Y3AdHf4MAZi3xgCFxiDfyPBNbBQKuTqTCoDI_XHrnQg '' = Inr True
   \<and> \<not> valid_base64 ''Y3AdHf4MAZi3xgCFxiDfyPBNbBQKuTqTCoDI_XHrnQg ''"
  by code_simp

text \<open>
  C2. The claim: on every string that is not valid base64, \<open>derivePublicKey\<close> fails with
  an error of the class \<open>InvalidEncoding\<close>. It does not: the string below is not valid
  base64, and the failure is the length error, the only one the source has.
\<close>

theorem derivePublicKey_invalid_encoding_counterexample:
  "\<not> valid_base64 ''***not base64***''
   \<and> derivePublicKey ''***not base64***'' = Inl InvalidKeyLength
   \<and> derivePublicKey ''***not base64***'' \<noteq> Inl InvalidEncoding"
  by code_simp

text \<open>
  C2, as amended. On a string that is not valid base64, \<open>derivePublicKey\<close> never fails
  with \<open>InvalidEncoding\<close>; whenever the bytes that the lenient decoder recovers from the
  string are not exactly 32, it fails with the length error.
\<close>

theorem derivePublicKey_never_invalid_encoding:
  assumes "\<not> valid_base64 s"
  shows "derivePublicKey s \<noteq> Inl InvalidEncoding
    \<and> (length (Buffer_from_base64 s) \<noteq> 32 \<longrightarrow> derivePublicKey s = Inl InvalidKeyLength)"
  by (simp add: derivePublicKey_def Let_def)

theorem derivePublicKey_never_invalid_encoding_witness:
  "\<not> valid_base64 ''***not base64***''
   \<and> length (Buffer_from_base64 ''***not base64***'') \<noteq> 32
   \<and> derivePublicKey ''***not base64***'' = Inl InvalidKeyLength"
proof -
  have a: "\<not> valid_base64 ''***not base64***''"
    by code_simp
  have b: "length (Buffer_from_base64 ''***not base64***'') \<noteq> 32"
    by code_simp
  from derivePublicKey_never_invalid_encoding [OF a] b
  have "derivePublicKey ''***not base64***'' = Inl InvalidKeyLength"
    by blast
  with a b show ?thesis
    by blast
qed

text \<open>
  C3. Whenever the decoded private key is not exactly 32 bytes long, \<open>derivePublicKey\<close>
  fails with the length error, so it returns no public key. This holds for every input
  string, the valid base64 strings among them.
\<close>

theorem derivePublicKey_wrong_length:
  "length (Buffer_from_base64 s) \<noteq> 32 \<Longrightarrow> derivePublicKey s = Inl InvalidKeyLength"
  by (simp add: derivePublicKey_def)

text \<open>The witness: the base64 text of 16 zero bytes and of 33 zero bytes.\<close>

theorem derivePublicKey_wrong_length_witness:
  "valid_base64 ''AAAAAAAAAAAAAAAAAAAAAA==''
   \<and> length (Buffer_from_base64 ''AAAAAAAAAAAAAAAAAAAAAA=='') = 16
   \<and> derivePublicKey ''AAAAAAAAAAAAAAAAAAAAAA=='' = Inl InvalidKeyLength
   \<and> valid_base64 ''AAAAAAAAAAAAAAAAAAAAAAAAAAAAAAAAAAAAAAAAAAAA''
   \<and> length (Buffer_from_base64 ''AAAAAAAAAAAAAAAAAAAAAAAAAAAAAAAAAAAAAAAAAAAA'') = 33
   \<and> derivePublicKey ''AAAAAAAAAAAAAAAAAAAAAAAAAAAAAAAAAAAAAAAAAAAA'' = Inl InvalidKeyLength"
proof -
  have v: "valid_base64 ''AAAAAAAAAAAAAAAAAAAAAA==''"
    "valid_base64 ''AAAAAAAAAAAAAAAAAAAAAAAAAAAAAAAAAAAAAAAAAAAA''"
    by code_simp+
  have a: "length (Buffer_from_base64 ''AAAAAAAAAAAAAAAAAAAAAA=='') = 16"
    by code_simp
  have b: "length (Buffer_from_base64 ''AAAAAAAAAAAAAAAAAAAAAAAAAAAAAAAAAAAAAAAAAAAA'') = 33"
    by code_simp
  have "derivePublicKey ''AAAAAAAAAAAAAAAAAAAAAA=='' = Inl InvalidKeyLength"
    by (rule derivePublicKey_wrong_length) (simp add: a)
  moreover
  have "derivePublicKey ''AAAAAAAAAAAAAAAAAAAAAAAAAAAAAAAAAAAAAAAAAAAA'' = Inl InvalidKeyLength"
    by (rule derivePublicKey_wrong_length) (simp add: b)
  ultimately show ?thesis
    using v a b by blast
qed

text \<open>
  C4. Whatever the random source yields, \<open>generateWireguardKeyPair\<close> returns a pair: its
  private key is the base64 text of the 32 bytes drawn, and \<open>derivePublicKey\<close> of the
  private key succeeds with exactly the public key of the pair.
\<close>

theorem generateWireguardKeyPair_roundtrip:
  "\<exists>pair rng'. generateWireguardKeyPair rng = Inr (pair, rng')
     \<and> privateKey pair = base64_encode (fst (randomBytes 32 rng))
     \<and> derivePublicKey (privateKey pair) = Inr (publicKey pair)"
  by (simp add: generateWireguardKeyPair_def generatePrivateKey_def randomBytes_def
      derivePublicKey_def Buffer_from_encode)

text \<open>
  C7. For the 32 bytes that \<open>generatePrivateKey\<close> draws, the string it returns is their
  base64 text: 43 characters of the standard alphabet followed by one \<open>=\<close>, 44
  characters in all, well-formed, and decoded back to the 32 bytes drawn.
\<close>

theorem generatePrivateKey_encoding:
  "\<exists>body. fst (generatePrivateKey rng) = body @ ''=''
     \<and> length body = 43
     \<and> list_all is_base64_char body
     \<and> length (fst (generatePrivateKey rng)) = 44
     \<and> valid_base64 (fst (generatePrivateKey rng))
     \<and> fst (generatePrivateKey rng) = base64_encode (fst (randomBytes 32 rng))
     \<and> length (fst (randomBytes 32 rng)) = 32
     \<and> Buffer_from_base64 (fst (generatePrivateKey rng)) = fst (randomBytes 32 rng)"
proof -
  let ?bs = "stake 32 rng"
  have len: "length ?bs = 32"
    by simp
  have key: "fst (generatePrivateKey rng) = base64_encode ?bs"
    by (simp add: generatePrivateKey_def randomBytes_def)
  have drawn: "fst (randomBytes 32 rng) = ?bs"
    by (simp add: randomBytes_def)
  have "base64_encode ?bs = map b64char (sextets ?bs) @ ''=''"
    by (rule encode_32(1) [OF len])
  moreover have "length (map b64char (sextets ?bs)) = 43"
    using encode_32(2) [OF len] by simp
  moreover have "list_all is_base64_char (map b64char (sextets ?bs))"
    by (simp add: list_all_iff b64char_in_table sextets_lt)
  moreover have "length (base64_encode ?bs) = 44"
    by (rule encode_32(3) [OF len])
  moreover have "valid_base64 (base64_encode ?bs)"
    by (rule valid_base64_encode)
  moreover have "Buffer_from_base64 (base64_encode ?bs) = ?bs"
    by (rule Buffer_from_encode)
  ultimately show ?thesis
    unfolding key drawn using len
    by (intro exI [of _ "map b64char (sextets ?bs)"]) simp
qed

text \<open>
  C8. \<open>validatePublicKey\<close> returns a boolean on every string and never an error. Its
  body does so over every decoder, and where the decoder fails the result is \<open>False\<close>.
\<close>

theorem validatePublicKey_total:
  "(\<exists>b. validatePublicKey s = Inr b)
   \<and> (\<exists>b. validatePublicKey_with decode s = Inr b)
   \<and> (decode s = Inl e \<longrightarrow> validatePublicKey_with decode s = Inr False)"
  by (auto simp: validatePublicKey_eq validatePublicKey_with_def split: sum.splits)

text \<open>The witness: a string of 44 characters, which passes the length check, and a
  decoder that fails on every input.\<close>

theorem validatePublicKey_total_witness:
  "length ''Y3AdHf4MAZi3xgCFxiDfyPBNbBQKuTqTCoDI/XHrnQg='' = 44
   \<and> validatePublicKey_with (\<lambda>str. Inl InvalidEncoding)
        ''Y3AdHf4MAZi3xgCFxiDfyPBNbBQKuTqTCoDI/XHrnQg='' = Inr False"
  using validatePublicKey_total
          [of "''Y3AdHf4MAZi3xgCFxiDfyPBNbBQKuTqTCoDI/XHrnQg=''"
              "\<lambda>str. Inl InvalidEncoding" InvalidEncoding]
  by simp

text \<open>
  C9. A string whose length is not 44 is rejected. In particular the base64 text of a
  32-byte value without its padding character has 43 characters and is rejected,
  although the decoder recovers the 32 bytes from it.
\<close>

theorem validatePublicKey_length_guard:
  "(length s \<noteq> 44 \<longrightarrow> validatePublicKey s = Inr False)
   \<and> (length bs = 32 \<longrightarrow>
        length (butlast (base64_encode bs)) = 43
        \<and> Buffer_from_base64 (butlast (base64_encode bs)) = bs
        \<and> validatePublicKey (butlast (base64_encode bs)) = Inr False)"
proof (intro conjI impI)
  assume len: "length bs = 32"
  have b: "butlast (base64_encode bs) = map b64char (sextets bs)"
    by (simp add: encode_32(1) [OF len])
  show "length (butlast (base64_encode bs)) = 43"
    by (simp add: b encode_32(2) [OF len])
  show "Buffer_from_base64 (butlast (base64_encode bs)) = bs"
    by (simp add: b Buffer_from_sextets)
  show "validatePublicKey (butlast (base64_encode bs)) = Inr False"
    by (simp add: b validatePublicKey_eq encode_32(2) [OF len])
qed (simp add: validatePublicKey_eq)

theorem validatePublicKey_length_guard_witness:
  "length ''Y3AdHf4MAZi3xgCFxiDfyPBNbBQKuTqTCoDI/XHrnQg'' \<noteq> 44
   \<and> validatePublicKey ''Y3AdHf4MAZi3xgCFxiDfyPBNbBQKuTqTCoDI/XHrnQg'' = Inr False
   \<and> length (replicate 32 (0 :: byte)) = 32
   \<and> Buffer_from_base64 (butlast (base64_encode (replicate 32 0))) = replicate 32 0
   \<and> validatePublicKey (butlast (base64_encode (replicate 32 0))) = Inr False"
proof -
  have a: "length ''Y3AdHf4MAZi3xgCFxiDfyPBNbBQKuTqTCoDI/XHrnQg'' \<noteq> 44"
    by simp
  have b: "length (replicate 32 (0 :: byte)) = 32"
    by simp
  from validatePublicKey_length_guard
         [of "''Y3AdHf4MAZi3xgCFxiDfyPBNbBQKuTqTCoDI/XHrnQg''" "replicate 32 0"] a b
  show ?thesis
    by blast
qed

text \<open>
  C10. Every public key that \<open>derivePublicKey\<close> returns passes \<open>validatePublicKey\<close>.
\<close>

theorem derivePublicKey_output_valid:
  "derivePublicKey s = Inr pk \<Longrightarrow> validatePublicKey pk = Inr True"
  by (auto simp: derivePublicKey_def Let_def validatePublicKey_encode
      length_x25519_getPublicKey split: if_splits)

text \<open>The witness: the private key of the README's example, whose 32 bytes pass the
  length check.\<close>

theorem derivePublicKey_output_valid_witness:
  "derivePublicKey ''nPse/4zbQGxOqAM14icWRru4I6g9s9xdhg9sCY2l3ck=''
     = Inr (base64_encode (x25519_getPublicKey
         (Buffer_from_base64 ''nPse/4zbQGxOqAM14icWRru4I6g9s9xdhg9sCY2l3ck='')))
   \<and> validatePublicKey (base64_encode (x25519_getPublicKey
         (Buffer_from_base64 ''nPse/4zbQGxOqAM14icWRru4I6g9s9xdhg9sCY2l3ck='')))
     = Inr True"
proof -
  have "length (Buffer_from_base64 ''nPse/4zbQGxOqAM14icWRru4I6g9s9xdhg9sCY2l3ck='') = 32"
    by code_simp
  then have d: "derivePublicKey ''nPse/4zbQGxOqAM14icWRru4I6g9s9xdhg9sCY2l3ck=''
     = Inr (base64_encode (x25519_getPublicKey
         (Buffer_from_base64 ''nPse/4zbQGxOqAM14icWRru4I6g9s9xdhg9sCY2l3ck='')))"
    by (rule derivePublicKey_32)
  from d derivePublicKey_output_valid [OF d] show ?thesis
    by (rule conjI)
qed

section \<open>The field arithmetic, computed\<close>

lemma two_255_pos: "0 < two_255"
  by (simp add: two_255_def)

lemma p25519_two_255: "p25519 = two_255 - 19"
  by (simp add: p25519_def two_255_def)

lemma two_255_gt: "1000 < two_255"
proof -
  have "(2::int) ^ 10 \<le> 2 ^ 255" by (rule power_increasing) simp_all
  then show ?thesis by (simp add: two_255_def)
qed

lemma drop_bit_255: "drop_bit 255 (x::int) = x div two_255"
  unfolding two_255_def by (rule drop_bit_eq_div)

lemma fold19_unfold: "fold19 x = x - two_255 * (x div two_255) + 19 * (x div two_255)"
  by (simp only: fold19_def Let_def drop_bit_255)

lemma fold19_eq_diff: "fold19 x = x - p25519 * (x div two_255)"
  unfolding fold19_unfold p25519_two_255 by (simp add: algebra_simps)

lemma fold19_eq_sum: "fold19 x = x mod two_255 + 19 * (x div two_255)"
proof -
  have "x = two_255 * (x div two_255) + x mod two_255" by simp
  then have "x - two_255 * (x div two_255) = x mod two_255" by linarith
  then show ?thesis
    unfolding fold19_unfold by simp
qed

lemma fold19_mod: "fold19 x mod p25519 = x mod p25519"
proof -
  have "(x + p25519 * (- (x div two_255))) mod p25519 = x mod p25519"
    by (rule mod_mult_self2)
  then show ?thesis
    unfolding fold19_eq_diff by simp
qed

lemma fold19_nonneg: "0 \<le> x \<Longrightarrow> 0 \<le> fold19 x"
  unfolding fold19_eq_sum using two_255_pos
  by (simp add: pos_imp_zdiv_nonneg_iff)

lemma div_less_int:
  fixes x b T :: int
  assumes "0 < T" "x < b * T"
  shows "x div T < b"
proof (rule ccontr)
  assume "\<not> x div T < b"
  then have "b \<le> x div T" by simp
  then have "b * T \<le> x div T * T" using assms(1) by (simp add: mult_right_mono)
  also have "\<dots> \<le> x"
  proof -
    have "x = x div T * T + x mod T" by simp
    moreover have "0 \<le> x mod T" using assms(1) by simp
    ultimately show ?thesis by linarith
  qed
  finally show False using assms(2) by simp
qed

lemma div_zero_less_int:
  fixes m k :: int
  assumes "0 \<le> m" "0 < k" "m div k = 0"
  shows "m < k"
  using assms by (auto simp: zdiv_eq_0_iff)

lemma div_two_255_less: "x < b * two_255 \<Longrightarrow> x div two_255 < b"
  using two_255_pos by (rule div_less_int)

lemma fold19_less:
  assumes "0 \<le> x" "x < b * two_255"
  shows "fold19 x < two_255 + 19 * b"
proof -
  have "x mod two_255 < two_255" using two_255_pos by simp
  moreover have "x div two_255 < b" using assms(2) by (rule div_two_255_less)
  ultimately show ?thesis unfolding fold19_eq_sum by linarith
qed

lemma reduce25519_correct:
  assumes "0 \<le> x" "x < two_255 * two_255"
  shows "reduce25519 x = x mod p25519"
proof -
  define y where "y = fold19 x"
  define z where "z = fold19 y"
  have y0: "0 \<le> y" unfolding y_def using assms(1) by (rule fold19_nonneg)
  have "y < two_255 + 19 * two_255" unfolding y_def using assms by (rule fold19_less)
  then have "y < 20 * two_255" by simp
  with y0 have "z < two_255 + 19 * 20" unfolding z_def by (rule fold19_less)
  then have z2: "z < 2 * p25519" using two_255_gt by (simp add: p25519_two_255)
  have z0: "0 \<le> z" unfolding z_def using y0 by (rule fold19_nonneg)
  have zm: "z mod p25519 = x mod p25519" by (simp add: z_def y_def fold19_mod)
  have p0: "0 < p25519" using two_255_gt by (simp add: p25519_two_255)
  show ?thesis
  proof (cases "p25519 \<le> z")
    case True
    then have "0 \<le> z - p25519" "z - p25519 < p25519" using z2 by simp_all
    then have "(z - p25519) mod p25519 = z - p25519" by (rule mod_pos_pos_trivial)
    moreover have "(z - p25519) mod p25519 = z mod p25519" by simp
    ultimately have "z - p25519 = x mod p25519" using zm by simp
    then show ?thesis using True by (simp add: reduce25519_def Let_def z_def y_def)
  next
    case False
    then have "z mod p25519 = z" using z0 by simp
    then have "z = x mod p25519" using zm by simp
    then show ?thesis using False by (simp add: reduce25519_def Let_def z_def y_def)
  qed
qed

lemma two_510: "two_255 * two_255 = 2 ^ 510"
proof -
  have "(2::int) ^ 255 * 2 ^ 255 = 2 ^ (255 + 255)"
    by (rule power_add [symmetric])
  then show ?thesis
    unfolding two_255_def by simp
qed

lemma fmul_code:
  "fmul a b = (let m = a * b in
                if 0 \<le> m \<and> drop_bit 510 m = 0 then reduce25519 m else m mod p25519)"
proof (cases "0 \<le> a * b \<and> drop_bit 510 (a * b) = 0")
  case True
  then have nonneg: "0 \<le> a * b" and "drop_bit 510 (a * b) = 0"
    by blast+
  then have dz: "(a * b) div (two_255 * two_255) = 0"
    unfolding two_510 by (simp only: drop_bit_eq_div)
  have pos: "0 < two_255 * two_255"
    using two_255_pos by simp
  have "a * b < two_255 * two_255"
    by (rule div_zero_less_int [OF nonneg pos dz])
  with nonneg have eq: "reduce25519 (a * b) = (a * b) mod p25519"
    by (rule reduce25519_correct)
  show ?thesis
    by (simp only: fmul_def Let_def if_P [OF True] eq)
next
  case False
  then show ?thesis
    by (simp only: fmul_def Let_def if_False)
qed

lemma pow_bits_append: "pow_bits z (xs @ ys) acc = pow_bits z ys (pow_bits z xs acc)"
  by (induction xs arbitrary: acc) simp_all

lemma bits_value_append:
  "bits_value (xs @ ys) = bits_value xs * 2 ^ length ys + bits_value ys"
  by (induction xs) (simp_all add: power_add algebra_simps)

lemma bits_value_replicate: "bits_value (replicate n True) + 1 = 2 ^ n"
  by (induction n) simp_all

lemma fmul_mod: "fmul (a mod p25519) (b mod p25519) = (a * b) mod p25519"
  by (simp add: fmul_def mod_mult_eq)

lemma fmul_mod_left: "fmul (a mod p25519) b = (a * b) mod p25519"
  by (simp add: fmul_def mod_mult_left_eq)

lemma pow_bits_correct:
  "pow_bits z bs (a mod p25519) = (a ^ (2 ^ length bs) * z ^ bits_value bs) mod p25519"
proof (induction bs arbitrary: a)
  case Nil
  then show ?case by simp
next
  case (Cons b bs)
  have sq: "fmul (a mod p25519) (a mod p25519) = (a * a) mod p25519"
    by (rule fmul_mod)
  have pw: "(a * a) ^ (2 ^ length bs) = a ^ (2 * 2 ^ length bs)"
    by (simp add: power_mult power2_eq_square flip: power_mult_distrib)
  show ?case
  proof (cases b)
    case True
    have "fmul (fmul (a mod p25519) (a mod p25519)) z = (a * a * z) mod p25519"
      unfolding sq by (rule fmul_mod_left)
    then have "pow_bits z (b # bs) (a mod p25519) = pow_bits z bs ((a * a * z) mod p25519)"
      using True by (simp only: pow_bits.simps if_True)
    also have "\<dots> = ((a * a * z) ^ (2 ^ length bs) * z ^ bits_value bs) mod p25519"
      by (rule Cons.IH)
    also have "(a * a * z) ^ (2 ^ length bs) * z ^ bits_value bs
        = a ^ (2 ^ length (b # bs)) * z ^ bits_value (b # bs)"
    proof -
      have "(a * a * z) ^ (2 ^ length bs) = (a * a) ^ (2 ^ length bs) * z ^ (2 ^ length bs)"
        by (rule power_mult_distrib)
      then have "(a * a * z) ^ (2 ^ length bs) * z ^ bits_value bs
          = a ^ (2 * 2 ^ length bs) * (z ^ (2 ^ length bs) * z ^ bits_value bs)"
        by (simp only: pw mult.assoc)
      also have "\<dots> = a ^ (2 * 2 ^ length bs) * z ^ (2 ^ length bs + bits_value bs)"
        by (simp only: power_add)
      finally show ?thesis
        using True by (simp only: bits_value.simps if_True list.size power_Suc
            Suc_eq_plus1 [symmetric] add_Suc_right add_0_right)
    qed
    finally show ?thesis .
  next
    case False
    have "pow_bits z (b # bs) (a mod p25519) = pow_bits z bs ((a * a) mod p25519)"
      using False by (simp only: pow_bits.simps if_False sq)
    also have "\<dots> = ((a * a) ^ (2 ^ length bs) * z ^ bits_value bs) mod p25519"
      by (rule Cons.IH)
    also have "(a * a) ^ (2 ^ length bs) * z ^ bits_value bs
        = a ^ (2 ^ length (b # bs)) * z ^ bits_value (b # bs)"
      using False by (simp only: pw bits_value.simps if_False list.size power_Suc
          Suc_eq_plus1 [symmetric] add_Suc_right add_0_right add_0_left)
    finally show ?thesis .
  qed
qed

lemma bits_value_exponent: "bits_value exponent_bits = nat (p25519 - 2)"
proof -
  define r where "r = bits_value (replicate 250 True)"
  have "r + 1 = 2 ^ 250"
    unfolding r_def by (rule bits_value_replicate)
  then have "int (r + 1) = int (2 ^ 250)"
    by (rule arg_cong)
  then have r: "int r + 1 = 2 ^ 250"
    by simp
  have "bits_value exponent_bits = r * 2 ^ 5 + bits_value [False, True, False, True, True]"
    unfolding exponent_bits_def bits_value_append r_def by simp
  then have v: "bits_value exponent_bits = 32 * r + 11"
    by simp
  have "(2::int) ^ 255 = 2 ^ 250 * 2 ^ 5"
    by (simp only: flip: power_add) simp
  then have "p25519 - 2 = (int r + 1) * 32 - 21"
    unfolding p25519_def r by simp
  then have "p25519 - 2 = int (32 * r + 11)"
    by simp
  then show ?thesis
    unfolding v by simp
qed

lemma finv_pow_bits: "finv z = pow_bits z exponent_bits 1"
proof -
  have "1 < p25519" using two_255_gt by (simp add: p25519_two_255)
  then have "pow_bits z exponent_bits 1 = pow_bits z exponent_bits (1 mod p25519)"
    by simp
  also have "\<dots> = (1 ^ (2 ^ length exponent_bits) * z ^ bits_value exponent_bits) mod p25519"
    by (rule pow_bits_correct)
  finally show ?thesis
    by (simp add: finv_def bits_value_exponent)
qed

section \<open>The test vector\<close>

text \<open>
  The README's example pair is a test vector of X25519. Its evaluation runs the ladder
  over the 255 bits of the clamped scalar and the inversion over the 255 bits of the
  exponent. Both are cut into 17 pieces of 15 bits; each piece is computed from the
  state that the piece before it has reached.
\<close>

lemma p25519_code [code]:
  "p25519 = 57896044618658097711785492504343953926634992332820282019728792003956564819949"
  by (simp add: p25519_def)

lemma two_255_code [code]:
  "two_255 = 57896044618658097711785492504343953926634992332820282019728792003956564819968"
  by (simp add: two_255_def)

declare fmul_code [code]

lemma vector_private_bytes:
  "Buffer_from_base64 ''nPse/4zbQGxOqAM14icWRru4I6g9s9xdhg9sCY2l3ck='' =
     [156, 251, 30, 255, 140, 219, 64, 108, 78, 168, 3, 53, 226, 39, 22, 70, 187, 184,
      35, 168, 61, 179, 220, 93, 134, 15, 108, 9, 141, 165, 221, 201]"
  by code_simp

lemma vector_scalar:
  "decodeLittleEndian (adjustScalarBytes
     [156, 251, 30, 255, 140, 219, 64, 108, 78, 168, 3, 53, 226, 39, 22, 70, 187, 184,
      35, 168, 61, 179, 220, 93, 134, 15, 108, 9, 141, 165, 221, 201]) =
     33410453738386433994924186134860935684745700696865079735117506902832353049496"
  by code_simp

lemma vector_scalar_bits:
  "scalar_bits 33410453738386433994924186134860935684745700696865079735117506902832353049496 =
     [True, False, False, True, False, False, True, True, True, False, True, True,
      True, False, True] @
     [True, False, True, False, False, True, False, True, True, False, False, False,
      True, True, False] @
     [True, False, False, False, False, True, False, False, True, False, True, True,
      False, True, True] @
     [False, False, False, False, False, False, True, True, True, True, True, False,
      False, False, False] @
     [True, True, False, False, True, False, True, True, True, False, True, True, True,
      False, True] @
     [True, True, False, False, True, False, True, True, False, False, True, True,
      False, False, True] @
     [True, True, True, False, True, True, False, True, False, True, False, False,
      False, False, False] @
     [True, False, False, False, True, True, True, False, True, True, True, False,
      False, False, True] @
     [False, True, True, True, False, True, True, False, True, False, False, False,
      True, True, False] @
     [False, False, False, True, False, True, True, False, False, False, True, False,
      False, True, True] @
     [True, True, True, True, False, False, False, True, False, False, False, True,
      True, False, True] @
     [False, True, False, False, False, False, False, False, True, True, True, False,
      True, False, True] @
     [False, False, False, False, True, False, False, True, True, True, False, False,
      True, True, False] @
     [True, True, False, False, False, True, False, False, False, False, False, False,
      True, True, False] @
     [True, True, False, True, True, True, False, False, False, True, True, False,
      False, True, True] @
     [True, True, True, True, True, True, False, False, False, True, True, True, True,
      False, True] @
     [True, True, True, True, False, True, True, True, False, False, True, True, False,
      False, False]"
  by code_simp

lemma ladder_chunk_1:
  "fold (ladder_step 9)
     [True, False, False, True, False, False, True, True, True, False, True, True,
      True, False, True]
     \<lparr>x2 = 1,
       z2 = 0,
       x3 = 9,
       z3 = 1,
       swap = False\<rparr> =
     \<lparr>x2 = 30788465488411612618608212671760188489553684328866903119688947315263412242968,
       z2 = 24822203671777796870410684488980257041012440909456386105435227719181177092425,
       x3 = 23172256176810598368605450828560704681832782586451331332557944963706200644997,
       z3 = 31012167851913720377850293942233001327398349277004908596806352174252049001015,
       swap = True\<rparr>"
  by code_simp

lemma ladder_chunk_2:
  "fold (ladder_step 9)
     [True, False, True, False, False, True, False, True, True, False, False, False,
      True, True, False]
     \<lparr>x2 = 30788465488411612618608212671760188489553684328866903119688947315263412242968,
       z2 = 24822203671777796870410684488980257041012440909456386105435227719181177092425,
       x3 = 23172256176810598368605450828560704681832782586451331332557944963706200644997,
       z3 = 31012167851913720377850293942233001327398349277004908596806352174252049001015,
       swap = True\<rparr> =
     \<lparr>x2 = 15864988797707177723175305474437542977193055376155310206710624326699364994025,
       z2 = 32535241244803870828175210473973277113538099258918729299249051496919469178899,
       x3 = 41796529654256562938573568700978041375447720802329131818612478903342787846797,
       z3 = 21990841288543904687827952841955937489011301437367592467021922496405084204321,
       swap = False\<rparr>"
  by code_simp

lemma ladder_chunk_3:
  "fold (ladder_step 9)
     [True, False, False, False, False, True, False, False, True, False, True, True,
      False, True, True]
     \<lparr>x2 = 15864988797707177723175305474437542977193055376155310206710624326699364994025,
       z2 = 32535241244803870828175210473973277113538099258918729299249051496919469178899,
       x3 = 41796529654256562938573568700978041375447720802329131818612478903342787846797,
       z3 = 21990841288543904687827952841955937489011301437367592467021922496405084204321,
       swap = False\<rparr> =
     \<lparr>x2 = 52515761421948788519943317518712735051642039126574600896748352139028931403070,
       z2 = 13161455176150684114864978994496517452945645596734466226029794722295240369461,
       x3 = 48817640422071453167046546325783693640328934412936584627661866854733238999514,
       z3 = 28391199882280700424999853715286604371047016826510317240923724565315120191985,
       swap = True\<rparr>"
  by code_simp

lemma ladder_chunk_4:
  "fold (ladder_step 9)
     [False, False, False, False, False, False, True, True, True, True, True, False,
      False, False, False]
     \<lparr>x2 = 52515761421948788519943317518712735051642039126574600896748352139028931403070,
       z2 = 13161455176150684114864978994496517452945645596734466226029794722295240369461,
       x3 = 48817640422071453167046546325783693640328934412936584627661866854733238999514,
       z3 = 28391199882280700424999853715286604371047016826510317240923724565315120191985,
       swap = True\<rparr> =
     \<lparr>x2 = 7568653170404469639402511846120703960199046227141104777625157040184314635553,
       z2 = 42635587705129885314052591668091101664249257741317973951851822093563608081726,
       x3 = 47976929770378821556469197697188762458466072707888171633568631084675644509194,
       z3 = 15345124473931763287777678055986401128605108617784785252727803554316209478752,
       swap = False\<rparr>"
  by code_simp

lemma ladder_chunk_5:
  "fold (ladder_step 9)
     [True, True, False, False, True, False, True, True, True, False, True, True, True,
      False, True]
     \<lparr>x2 = 7568653170404469639402511846120703960199046227141104777625157040184314635553,
       z2 = 42635587705129885314052591668091101664249257741317973951851822093563608081726,
       x3 = 47976929770378821556469197697188762458466072707888171633568631084675644509194,
       z3 = 15345124473931763287777678055986401128605108617784785252727803554316209478752,
       swap = False\<rparr> =
     \<lparr>x2 = 33828373386803259726216001947231113115214007170567696671964817784968821192088,
       z2 = 46907991674551793779824523175993172644253209446213949643973783918886505984796,
       x3 = 48581168729851845512744396744597358392735801940191266740012705710907891441550,
       z3 = 12158390500411921216847431648115721115146162990221657849633443315692555892587,
       swap = True\<rparr>"
  by code_simp

lemma ladder_chunk_6:
  "fold (ladder_step 9)
     [True, True, False, False, True, False, True, True, False, False, True, True,
      False, False, True]
     \<lparr>x2 = 33828373386803259726216001947231113115214007170567696671964817784968821192088,
       z2 = 46907991674551793779824523175993172644253209446213949643973783918886505984796,
       x3 = 48581168729851845512744396744597358392735801940191266740012705710907891441550,
       z3 = 12158390500411921216847431648115721115146162990221657849633443315692555892587,
       swap = True\<rparr> =
     \<lparr>x2 = 14419769994598331468456011593513774737176870289738308798357896483246773856349,
       z2 = 24459178483775836229753927620604035249490618578740244400945866580805359757087,
       x3 = 27861569253424160489281245390265305763622775160696531245673402108101889971405,
       z3 = 36497883111300570691737392498532855550497437567264388719042946040487295903512,
       swap = True\<rparr>"
  by code_simp

lemma ladder_chunk_7:
  "fold (ladder_step 9)
     [True, True, True, False, True, True, False, True, False, True, False, False,
      False, False, False]
     \<lparr>x2 = 14419769994598331468456011593513774737176870289738308798357896483246773856349,
       z2 = 24459178483775836229753927620604035249490618578740244400945866580805359757087,
       x3 = 27861569253424160489281245390265305763622775160696531245673402108101889971405,
       z3 = 36497883111300570691737392498532855550497437567264388719042946040487295903512,
       swap = True\<rparr> =
     \<lparr>x2 = 11253543428079463550467892404557024790244024247289400989924508771453977310043,
       z2 = 10376171942722001824831847299076067189451124014564327942185123214407094516976,
       x3 = 34367153223814070257608341532794669607193051466384149663929596610864426792056,
       z3 = 15582612564312711261269532779863463304227845661705348354593636898189680534194,
       swap = False\<rparr>"
  by code_simp

lemma ladder_chunk_8:
  "fold (ladder_step 9)
     [True, False, False, False, True, True, True, False, True, True, True, False,
      False, False, True]
     \<lparr>x2 = 11253543428079463550467892404557024790244024247289400989924508771453977310043,
       z2 = 10376171942722001824831847299076067189451124014564327942185123214407094516976,
       x3 = 34367153223814070257608341532794669607193051466384149663929596610864426792056,
       z3 = 15582612564312711261269532779863463304227845661705348354593636898189680534194,
       swap = False\<rparr> =
     \<lparr>x2 = 9152232918741469102395440991049351494163734545600759498877648160820915183639,
       z2 = 9415974271356190942349530775997344842245876219778726507175942485644500775653,
       x3 = 50443381536043795872887693862829625305471337716510631062201125701669545883918,
       z3 = 38031616745680774967732363392444560478924606415646214542620466619887476805776,
       swap = True\<rparr>"
  by code_simp

lemma ladder_chunk_9:
  "fold (ladder_step 9)
     [False, True, True, True, False, True, True, False, True, False, False, False,
      True, True, False]
     \<lparr>x2 = 9152232918741469102395440991049351494163734545600759498877648160820915183639,
       z2 = 9415974271356190942349530775997344842245876219778726507175942485644500775653,
       x3 = 50443381536043795872887693862829625305471337716510631062201125701669545883918,
       z3 = 38031616745680774967732363392444560478924606415646214542620466619887476805776,
       swap = True\<rparr> =
     \<lparr>x2 = 38361896886669003133597667167633286791689526257099212742478918952855592569141,
       z2 = 46430113870639095334523054124422456250324299339678417300373190561253380887852,
       x3 = 46808933072505392011942251056770108297475635054953357995252482403634569582142,
       z3 = 13979794009308598891138261382383908168787279664823763121093860365194529736476,
       swap = False\<rparr>"
  by code_simp

lemma ladder_chunk_10:
  "fold (ladder_step 9)
     [False, False, False, True, False, True, True, False, False, False, True, False,
      False, True, True]
     \<lparr>x2 = 38361896886669003133597667167633286791689526257099212742478918952855592569141,
       z2 = 46430113870639095334523054124422456250324299339678417300373190561253380887852,
       x3 = 46808933072505392011942251056770108297475635054953357995252482403634569582142,
       z3 = 13979794009308598891138261382383908168787279664823763121093860365194529736476,
       swap = False\<rparr> =
     \<lparr>x2 = 39017619762793608203996897795638205710767487553436392861863087084384004511428,
       z2 = 23184050782841529868453865528551244892458133493363777146207392046628356517294,
       x3 = 41052583144278656211246011393568682947144096455136947233655067349402446695436,
       z3 = 8385443385435122135576904925081949558056389501622656861563865184967341469645,
       swap = True\<rparr>"
  by code_simp

lemma ladder_chunk_11:
  "fold (ladder_step 9)
     [True, True, True, True, False, False, False, True, False, False, False, True,
      True, False, True]
     \<lparr>x2 = 39017619762793608203996897795638205710767487553436392861863087084384004511428,
       z2 = 23184050782841529868453865528551244892458133493363777146207392046628356517294,
       x3 = 41052583144278656211246011393568682947144096455136947233655067349402446695436,
       z3 = 8385443385435122135576904925081949558056389501622656861563865184967341469645,
       swap = True\<rparr> =
     \<lparr>x2 = 23748668497954782904624980401631626202249426868824897982757285071692931646240,
       z2 = 163219650073159781717357613350262991065646711726176575611348805575326098006,
       x3 = 42305216916830900454961937183614139076685583060146951267002103161378050386227,
       z3 = 5049371137114534295309077905243823049061704261751533177550288898063411059488,
       swap = True\<rparr>"
  by code_simp

lemma ladder_chunk_12:
  "fold (ladder_step 9)
     [False, True, False, False, False, False, False, False, True, True, True, False,
      True, False, True]
     \<lparr>x2 = 23748668497954782904624980401631626202249426868824897982757285071692931646240,
       z2 = 163219650073159781717357613350262991065646711726176575611348805575326098006,
       x3 = 42305216916830900454961937183614139076685583060146951267002103161378050386227,
       z3 = 5049371137114534295309077905243823049061704261751533177550288898063411059488,
       swap = True\<rparr> =
     \<lparr>x2 = 9211854547157858209575110653078934531265004878407963548708450445371462222871,
       z2 = 25658862919873303751794835495583894787525538973868849180276102057525423570627,
       x3 = 41314609562118443865027937318005561799653294176323774397793166297290417591673,
       z3 = 40687323020232434211057791267501781628253218762733367445128448097894111485185,
       swap = True\<rparr>"
  by code_simp

lemma ladder_chunk_13:
  "fold (ladder_step 9)
     [False, False, False, False, True, False, False, True, True, True, False, False,
      True, True, False]
     \<lparr>x2 = 9211854547157858209575110653078934531265004878407963548708450445371462222871,
       z2 = 25658862919873303751794835495583894787525538973868849180276102057525423570627,
       x3 = 41314609562118443865027937318005561799653294176323774397793166297290417591673,
       z3 = 40687323020232434211057791267501781628253218762733367445128448097894111485185,
       swap = True\<rparr> =
     \<lparr>x2 = 1639560498690617368206989020355081817587269871167796571649374615986101314974,
       z2 = 51648961753888002643382251758579418345303338164873122128998112106403274706093,
       x3 = 21427392392438236860702468482014429351563914383902204895546830356470703480985,
       z3 = 3118401014302765312991860583333349236444437201341054086601882693113311913809,
       swap = False\<rparr>"
  by code_simp

lemma ladder_chunk_14:
  "fold (ladder_step 9)
     [True, True, False, False, False, True, False, False, False, False, False, False,
      True, True, False]
     \<lparr>x2 = 1639560498690617368206989020355081817587269871167796571649374615986101314974,
       z2 = 51648961753888002643382251758579418345303338164873122128998112106403274706093,
       x3 = 21427392392438236860702468482014429351563914383902204895546830356470703480985,
       z3 = 3118401014302765312991860583333349236444437201341054086601882693113311913809,
       swap = False\<rparr> =
     \<lparr>x2 = 41558229445566169666337699845238281976796895459473093557024875000849140064332,
       z2 = 45716877494288747084445789220300869808507969053149872868667763946253729135097,
       x3 = 32885116308607982932646128763037571604535560156687193044754703294817048081453,
       z3 = 32067326202045384806114224609948412776979636225213132118749198039211967306489,
       swap = False\<rparr>"
  by code_simp

lemma ladder_chunk_15:
  "fold (ladder_step 9)
     [True, True, False, True, True, True, False, False, False, True, True, False,
      False, True, True]
     \<lparr>x2 = 41558229445566169666337699845238281976796895459473093557024875000849140064332,
       z2 = 45716877494288747084445789220300869808507969053149872868667763946253729135097,
       x3 = 32885116308607982932646128763037571604535560156687193044754703294817048081453,
       z3 = 32067326202045384806114224609948412776979636225213132118749198039211967306489,
       swap = False\<rparr> =
     \<lparr>x2 = 33052500066398929080851261301626491350935647949068102605819319988327476692258,
       z2 = 51056769052403721208927710056466217659598662170221673647504181558813484778123,
       x3 = 50190568932185790395408714748455718628616153299498868973044246331434661003583,
       z3 = 50650540872313338898287932513917982454358546702105812747750402293904152771081,
       swap = True\<rparr>"
  by code_simp

lemma ladder_chunk_16:
  "fold (ladder_step 9)
     [True, True, True, True, True, True, False, False, False, True, True, True, True,
      False, True]
     \<lparr>x2 = 33052500066398929080851261301626491350935647949068102605819319988327476692258,
       z2 = 51056769052403721208927710056466217659598662170221673647504181558813484778123,
       x3 = 50190568932185790395408714748455718628616153299498868973044246331434661003583,
       z3 = 50650540872313338898287932513917982454358546702105812747750402293904152771081,
       swap = True\<rparr> =
     \<lparr>x2 = 42039622680350659229815216227675865202221902722262849869820994964219463929876,
       z2 = 54595904460715028416779768553314230412841853599479732688128104508472756251513,
       x3 = 18003384706197482070925955416838926915961137252612537002811305341710731519694,
       z3 = 41257338785494568407740521249346243794914822187053138075420194052490315662458,
       swap = True\<rparr>"
  by code_simp

lemma ladder_chunk_17:
  "fold (ladder_step 9)
     [True, True, True, True, False, True, True, True, False, False, True, True, False,
      False, False]
     \<lparr>x2 = 42039622680350659229815216227675865202221902722262849869820994964219463929876,
       z2 = 54595904460715028416779768553314230412841853599479732688128104508472756251513,
       x3 = 18003384706197482070925955416838926915961137252612537002811305341710731519694,
       z3 = 41257338785494568407740521249346243794914822187053138075420194052490315662458,
       swap = True\<rparr> =
     \<lparr>x2 = 1857104794201367678207384314461681720347559561499012581472856568232832002514,
       z2 = 33206765349524648294738303866696933960591057119225093605897272439141089995111,
       x3 = 11917122147593618814096663197583048816055116914837942027011659917176775667595,
       z3 = 28575005284127749769617571740787384412932403656076288208055588635745712898029,
       swap = False\<rparr>"
  by code_simp

lemmas ladder_chunks =
  ladder_chunk_1 ladder_chunk_2 ladder_chunk_3 ladder_chunk_4 ladder_chunk_5
  ladder_chunk_6 ladder_chunk_7 ladder_chunk_8 ladder_chunk_9 ladder_chunk_10
  ladder_chunk_11 ladder_chunk_12 ladder_chunk_13 ladder_chunk_14 ladder_chunk_15
  ladder_chunk_16 ladder_chunk_17

lemma vector_ladder:
  "montgomery_ladder 33410453738386433994924186134860935684745700696865079735117506902832353049496 9 =
     \<lparr>x2 = 1857104794201367678207384314461681720347559561499012581472856568232832002514,
       z2 = 33206765349524648294738303866696933960591057119225093605897272439141089995111,
       x3 = 11917122147593618814096663197583048816055116914837942027011659917176775667595,
       z3 = 28575005284127749769617571740787384412932403656076288208055588635745712898029,
       swap = False\<rparr>"
  unfolding montgomery_ladder_def vector_scalar_bits
  by (simp only: fold_append comp_apply ladder_chunks)

lemma exponent_bits_chunks:
  "exponent_bits =
     [True, True, True, True, True, True, True, True, True, True, True, True, True,
      True, True] @
     [True, True, True, True, True, True, True, True, True, True, True, True, True,
      True, True] @
     [True, True, True, True, True, True, True, True, True, True, True, True, True,
      True, True] @
     [True, True, True, True, True, True, True, True, True, True, True, True, True,
      True, True] @
     [True, True, True, True, True, True, True, True, True, True, True, True, True,
      True, True] @
     [True, True, True, True, True, True, True, True, True, True, True, True, True,
      True, True] @
     [True, True, True, True, True, True, True, True, True, True, True, True, True,
      True, True] @
     [True, True, True, True, True, True, True, True, True, True, True, True, True,
      True, True] @
     [True, True, True, True, True, True, True, True, True, True, True, True, True,
      True, True] @
     [True, True, True, True, True, True, True, True, True, True, True, True, True,
      True, True] @
     [True, True, True, True, True, True, True, True, True, True, True, True, True,
      True, True] @
     [True, True, True, True, True, True, True, True, True, True, True, True, True,
      True, True] @
     [True, True, True, True, True, True, True, True, True, True, True, True, True,
      True, True] @
     [True, True, True, True, True, True, True, True, True, True, True, True, True,
      True, True] @
     [True, True, True, True, True, True, True, True, True, True, True, True, True,
      True, True] @
     [True, True, True, True, True, True, True, True, True, True, True, True, True,
      True, True] @
     [True, True, True, True, True, True, True, True, True, True, False, True, False,
      True, True]"
  by code_simp

lemma inverse_chunk_1:
  "pow_bits 33206765349524648294738303866696933960591057119225093605897272439141089995111
     [True, True, True, True, True, True, True, True, True, True, True, True, True,
      True, True]
     1 =
     40482148412360652318930254436828194528979954746645720463406341559634428486183"
  by code_simp

lemma inverse_chunk_2:
  "pow_bits 33206765349524648294738303866696933960591057119225093605897272439141089995111
     [True, True, True, True, True, True, True, True, True, True, True, True, True,
      True, True]
     40482148412360652318930254436828194528979954746645720463406341559634428486183 =
     47242225293595177627771453694714736381897296410014139824388448952754423235779"
  by code_simp

lemma inverse_chunk_3:
  "pow_bits 33206765349524648294738303866696933960591057119225093605897272439141089995111
     [True, True, True, True, True, True, True, True, True, True, True, True, True,
      True, True]
     47242225293595177627771453694714736381897296410014139824388448952754423235779 =
     37015813200857198760253604287914424450446252694588825579130687765775686693461"
  by code_simp

lemma inverse_chunk_4:
  "pow_bits 33206765349524648294738303866696933960591057119225093605897272439141089995111
     [True, True, True, True, True, True, True, True, True, True, True, True, True,
      True, True]
     37015813200857198760253604287914424450446252694588825579130687765775686693461 =
     35037874978639408296846156917535542549812162872708722865052250937040902411114"
  by code_simp

lemma inverse_chunk_5:
  "pow_bits 33206765349524648294738303866696933960591057119225093605897272439141089995111
     [True, True, True, True, True, True, True, True, True, True, True, True, True,
      True, True]
     35037874978639408296846156917535542549812162872708722865052250937040902411114 =
     55484111798713948979590593311422764040846694886625962760223818178857877890590"
  by code_simp

lemma inverse_chunk_6:
  "pow_bits 33206765349524648294738303866696933960591057119225093605897272439141089995111
     [True, True, True, True, True, True, True, True, True, True, True, True, True,
      True, True]
     55484111798713948979590593311422764040846694886625962760223818178857877890590 =
     6763133258518139019425677951317894882153683198432664403017855553376245798516"
  by code_simp

lemma inverse_chunk_7:
  "pow_bits 33206765349524648294738303866696933960591057119225093605897272439141089995111
     [True, True, True, True, True, True, True, True, True, True, True, True, True,
      True, True]
     6763133258518139019425677951317894882153683198432664403017855553376245798516 =
     38520501261217793832696587502810742798666526682198276435308808839377359133240"
  by code_simp

lemma inverse_chunk_8:
  "pow_bits 33206765349524648294738303866696933960591057119225093605897272439141089995111
     [True, True, True, True, True, True, True, True, True, True, True, True, True,
      True, True]
     38520501261217793832696587502810742798666526682198276435308808839377359133240 =
     22347655272305746946147951284900611839993715638030907837042149504448524122308"
  by code_simp

lemma inverse_chunk_9:
  "pow_bits 33206765349524648294738303866696933960591057119225093605897272439141089995111
     [True, True, True, True, True, True, True, True, True, True, True, True, True,
      True, True]
     22347655272305746946147951284900611839993715638030907837042149504448524122308 =
     9742294053822348056806097811693381469922693802870977592296232156085097557349"
  by code_simp

lemma inverse_chunk_10:
  "pow_bits 33206765349524648294738303866696933960591057119225093605897272439141089995111
     [True, True, True, True, True, True, True, True, True, True, True, True, True,
      True, True]
     9742294053822348056806097811693381469922693802870977592296232156085097557349 =
     48607349336192828552226866030121401351619152070239267424157420009703929062604"
  by code_simp

lemma inverse_chunk_11:
  "pow_bits 33206765349524648294738303866696933960591057119225093605897272439141089995111
     [True, True, True, True, True, True, True, True, True, True, True, True, True,
      True, True]
     48607349336192828552226866030121401351619152070239267424157420009703929062604 =
     36455857524186107097845303207207431742799635431680135063148188938883482222783"
  by code_simp

lemma inverse_chunk_12:
  "pow_bits 33206765349524648294738303866696933960591057119225093605897272439141089995111
     [True, True, True, True, True, True, True, True, True, True, True, True, True,
      True, True]
     36455857524186107097845303207207431742799635431680135063148188938883482222783 =
     34104365381702840583206350956667740814600160409099856701486211580823536588481"
  by code_simp

lemma inverse_chunk_13:
  "pow_bits 33206765349524648294738303866696933960591057119225093605897272439141089995111
     [True, True, True, True, True, True, True, True, True, True, True, True, True,
      True, True]
     34104365381702840583206350956667740814600160409099856701486211580823536588481 =
     51684489318653407383886251582285810990379652168064531519637106846958352373317"
  by code_simp

lemma inverse_chunk_14:
  "pow_bits 33206765349524648294738303866696933960591057119225093605897272439141089995111
     [True, True, True, True, True, True, True, True, True, True, True, True, True,
      True, True]
     51684489318653407383886251582285810990379652168064531519637106846958352373317 =
     4690204704573420444259395481528839451373046190163114678899518766714461247342"
  by code_simp

lemma inverse_chunk_15:
  "pow_bits 33206765349524648294738303866696933960591057119225093605897272439141089995111
     [True, True, True, True, True, True, True, True, True, True, True, True, True,
      True, True]
     4690204704573420444259395481528839451373046190163114678899518766714461247342 =
     55855009922791106442698352197336623698688660179364931724838881632415611732517"
  by code_simp

lemma inverse_chunk_16:
  "pow_bits 33206765349524648294738303866696933960591057119225093605897272439141089995111
     [True, True, True, True, True, True, True, True, True, True, True, True, True,
      True, True]
     55855009922791106442698352197336623698688660179364931724838881632415611732517 =
     7804161362760794885574413658145587811171650167054623414291562306617291701144"
  by code_simp

lemma inverse_chunk_17:
  "pow_bits 33206765349524648294738303866696933960591057119225093605897272439141089995111
     [True, True, True, True, True, True, True, True, True, True, False, True, False,
      True, True]
     7804161362760794885574413658145587811171650167054623414291562306617291701144 =
     48209252622610003825661711890784799008432576173538400482886734735952626705059"
  by code_simp

lemmas inverse_chunks =
  inverse_chunk_1 inverse_chunk_2 inverse_chunk_3 inverse_chunk_4 inverse_chunk_5
  inverse_chunk_6 inverse_chunk_7 inverse_chunk_8 inverse_chunk_9 inverse_chunk_10
  inverse_chunk_11 inverse_chunk_12 inverse_chunk_13 inverse_chunk_14 inverse_chunk_15
  inverse_chunk_16 inverse_chunk_17

lemma vector_inverse:
  "finv 33206765349524648294738303866696933960591057119225093605897272439141089995111 =
     48209252622610003825661711890784799008432576173538400482886734735952626705059"
  unfolding finv_pow_bits exponent_bits_chunks
  by (simp only: pow_bits_append inverse_chunks)

lemma vector_product:
  "fmul 1857104794201367678207384314461681720347559561499012581472856568232832002514
     48209252622610003825661711890784799008432576173538400482886734735952626705059 =
     3897522761428297391705280035342926626521718501887429501119990413637594214499"
  by code_simp

lemma vector_scalarMult:
  "scalarMult 33410453738386433994924186134860935684745700696865079735117506902832353049496 9 =
     3897522761428297391705280035342926626521718501887429501119990413637594214499"
  unfolding scalarMult_def vector_ladder
  by (simp add: cswap_def vector_inverse vector_product)

lemma vector_public_bytes:
  "encodeLittleEndian 32 3897522761428297391705280035342926626521718501887429501119990413637594214499 =
     [99, 112, 29, 29, 254, 12, 1, 152, 183, 198, 0, 133, 198, 32, 223, 200, 240, 77,
      108, 20, 10, 185, 58, 147, 10, 128, 200, 253, 113, 235, 157, 8]"
  by code_simp

lemma vector_public_text:
  "base64_encode
     [99, 112, 29, 29, 254, 12, 1, 152, 183, 198, 0, 133, 198, 32, 223, 200, 240, 77,
      108, 20, 10, 185, 58, 147, 10, 128, 200, 253, 113, 235, 157, 8] =
     ''Y3AdHf4MAZi3xgCFxiDfyPBNbBQKuTqTCoDI/XHrnQg=''"
  by code_simp

lemma vector_x25519:
  "x25519_getPublicKey
     [156, 251, 30, 255, 140, 219, 64, 108, 78, 168, 3, 53, 226, 39, 22, 70, 187, 184,
      35, 168, 61, 179, 220, 93, 134, 15, 108, 9, 141, 165, 221, 201] =
     [99, 112, 29, 29, 254, 12, 1, 152, 183, 198, 0, 133, 198, 32, 223, 200, 240, 77,
      108, 20, 10, 185, 58, 147, 10, 128, 200, 253, 113, 235, 157, 8]"
  unfolding x25519_getPublicKey_def vector_scalar vector_scalarMult
  by (rule vector_public_bytes)

text \<open>
  C6. \<open>derivePublicKey\<close> of the private key \<^verbatim>\<open>nPse/4zbQGxOqAM14icWRru4I6g9s9xdhg9sCY2l3ck=\<close>
  is the public key \<^verbatim>\<open>Y3AdHf4MAZi3xgCFxiDfyPBNbBQKuTqTCoDI/XHrnQg=\<close>.
\<close>

theorem derivePublicKey_test_vector:
  "derivePublicKey ''nPse/4zbQGxOqAM14icWRru4I6g9s9xdhg9sCY2l3ck=''
     = Inr ''Y3AdHf4MAZi3xgCFxiDfyPBNbBQKuTqTCoDI/XHrnQg=''"
proof -
  have "length (Buffer_from_base64 ''nPse/4zbQGxOqAM14icWRru4I6g9s9xdhg9sCY2l3ck='') = 32"
    unfolding vector_private_bytes by simp
  then have "derivePublicKey ''nPse/4zbQGxOqAM14icWRru4I6g9s9xdhg9sCY2l3ck=''
      = Inr (base64_encode (x25519_getPublicKey
          (Buffer_from_base64 ''nPse/4zbQGxOqAM14icWRru4I6g9s9xdhg9sCY2l3ck='')))"
    by (rule derivePublicKey_32)
  then show ?thesis
    by (simp only: vector_private_bytes vector_x25519 vector_public_text)
qed

end
